theory Spec2Isabelle
  imports Main "HOL-Library.Sublist"
begin

section \<open>JavaScript values and objects\<close>

text \<open>
  The global settings of the plugin are a JSON object. The code reads its properties with
  \<^verbatim>\<open>typeof x === 'string'\<close>, \<^verbatim>\<open>typeof x === 'number'\<close> and by truthiness, so a property
  value is modelled with its JavaScript type. An object is a function from property names
  to values; a missing property reads \<open>JUndefined\<close>, as in JavaScript. Numbers are the
  integer Unix timestamps of the data model (\<^verbatim>\<open>Math.floor(Date.now() / 1000)\<close>).
\<close>

datatype jsval = JUndefined | JNull | JBool bool | JNum int | JStr string

type_synonym jsobj = "string \<Rightarrow> jsval"

definition empty_obj :: jsobj where
  "empty_obj = (\<lambda>k. JUndefined)"

fun truthy :: "jsval \<Rightarrow> bool" where
  "truthy JUndefined = False"
| "truthy JNull = False"
| "truthy (JBool b) = b"
| "truthy (JNum n) = (n \<noteq> 0)"
| "truthy (JStr s) = (s \<noteq> [])"

text \<open>\<^verbatim>\<open>typeof v === 'string' ? v : null\<close>; the result type \<^verbatim>\<open>string | null\<close> is \<open>string option\<close>.\<close>

fun string_or_null :: "jsval \<Rightarrow> string option" where
  "string_or_null (JStr s) = Some s"
| "string_or_null v = None"

text \<open>\<^verbatim>\<open>typeof v === 'string' ? v : ''\<close>\<close>

fun string_or_empty :: "jsval \<Rightarrow> string" where
  "string_or_empty (JStr s) = s"
| "string_or_empty v = []"

text \<open>\<^verbatim>\<open>typeof v === 'number' ? v : 0\<close>\<close>

fun number_or_0 :: "jsval \<Rightarrow> int" where
  "number_or_0 (JNum n) = n"
| "number_or_0 v = 0"

text \<open>\<^verbatim>\<open>!x\<close> for \<^verbatim>\<open>x : string | null\<close>: null and the empty string are falsy.\<close>

fun falsy :: "string option \<Rightarrow> bool" where
  "falsy None = True"
| "falsy (Some s) = (s = [])"

text \<open>The string held by a \<^verbatim>\<open>string | null\<close> that has passed the \<^verbatim>\<open>!x\<close> check.\<close>

fun text_of :: "string option \<Rightarrow> string" where
  "text_of None = []"
| "text_of (Some s) = s"

text \<open>\<^verbatim>\<open>String.prototype.includes\<close>: does \<open>p\<close> occur in \<open>s\<close> as a contiguous substring.\<close>

fun includes_str :: "string \<Rightarrow> string \<Rightarrow> bool" where
  "includes_str [] p = (p = [])"
| "includes_str (c # cs) p = (take (length p) (c # cs) = p \<or> includes_str cs p)"

section \<open>Errors and upstream responses\<close>

text \<open>
  A thrown value, as far as the code inspects it: \<^verbatim>\<open>error?.response?.status\<close> and
  \<^verbatim>\<open>error?.status\<close> (\<open>None\<close> when the property chain gives no number),
  \<^verbatim>\<open>error?.message\<close> (a string, or \<open>None\<close> when undefined) and the text of
  \<^verbatim>\<open>error.toString()\<close>, which is also what a template literal \<^verbatim>\<open>${error}\<close> inserts. Thrown
  values are objects with a \<^verbatim>\<open>toString\<close> method, as every \<^verbatim>\<open>Error\<close> and every axios error
  is.
\<close>

record js_error =
  response_status :: "int option"
  status :: "int option"
  message :: "string option"
  to_string :: string

text \<open>\<^verbatim>\<open>new Error(msg)\<close>: no status fields; \<^verbatim>\<open>toString()\<close> is the name, a colon and the message.\<close>

definition Error_new :: "string \<Rightarrow> js_error" where
  "Error_new msg =
     \<lparr>response_status = None, status = None, message = Some msg,
      to_string = (if msg = [] then ''Error'' else ''Error: '' @ msg)\<rparr>"

record Athlete =
  id_num :: int
  firstname :: "string option"
  lastname :: "string option"

record TokenResponse =
  token_type :: string
  expires_at :: int
  expires_in :: int
  refresh_token :: string
  access_token :: string
  athlete :: "Athlete option"

text \<open>The two bodies posted to \<^verbatim>\<open>https://www.strava.com/oauth/token\<close>.\<close>

datatype token_request =
    AuthorizationCode string string string  \<comment> \<open>client id, client secret, code\<close>
  | RefreshToken string string string       \<comment> \<open>client id, client secret, refresh token\<close>

section \<open>The world: credential store, upstream, key display\<close>

text \<open>
  Everything an operation does to the outside is appended to a trace. A write records the
  store it replaces and the object written. Logging is not recorded: it touches neither
  the store, the network nor a key.
\<close>

text \<open>The resource requests of the service, each sent with the bearer token:
  \<^verbatim>\<open>GET /athlete\<close> and \<^verbatim>\<open>GET /athletes/{id}/stats\<close>.\<close>

datatype api_request = AthleteProfile | AthleteStats int

text \<open>The four titles of the setup key (\<^verbatim>\<open>updateDisplay\<close>); \<open>Connected h\<close> carries the hours left.\<close>

datatype oauth_status = Connected int | TokenExpired | ReadyToAuth | NotConfigured

datatype event =
    GetGlobalSettings
  | SetGlobalSettings jsobj jsobj
  | Post token_request "js_error + TokenResponse"
  | ApiGet api_request string
  | SetTitle string string
  | SetImage string string
  | SetSettings string jsobj
  | ShowOk string
  | ShowAlert string
  | StatusTitle string oauth_status

record world =
  store :: jsobj
  trace :: "event list"

text \<open>
  The upstream API. The execution is single-threaded and cooperative: while a call to the
  token endpoint is awaited, the timers of the other widgets run and may rewrite the
  store, so the token endpoint answers with its response and with the store as it is when
  the caller resumes. A read of the store that is followed at once by a write is not
  interleaved. The resource endpoints take the bearer token.
\<close>

record 'st upstream =
  token_endpoint :: "token_request \<Rightarrow> jsobj \<Rightarrow> (js_error + TokenResponse) \<times> jsobj"
  athlete_endpoint :: "string \<Rightarrow> js_error + Athlete"
  stats_endpoint :: "string \<Rightarrow> int \<Rightarrow> js_error + 'st"

definition emit :: "event \<Rightarrow> world \<Rightarrow> world" where
  "emit e w = w\<lparr>trace := trace w @ [e]\<rparr>"

text \<open>\<^verbatim>\<open>streamDeck.settings.getGlobalSettings()\<close> and \<^verbatim>\<open>setGlobalSettings(obj)\<close>: a read
  returns the latest write, a write replaces the record.\<close>

definition getGlobalSettings :: "world \<Rightarrow> jsobj \<times> world" where
  "getGlobalSettings w = (store w, emit GetGlobalSettings w)"

definition setGlobalSettings :: "jsobj \<Rightarrow> world \<Rightarrow> world" where
  "setGlobalSettings obj w = (emit (SetGlobalSettings (store w) obj) w)\<lparr>store := obj\<rparr>"

text \<open>\<^verbatim>\<open>axios.post("https://www.strava.com/oauth/token", body)\<close>\<close>

definition post :: "'st upstream \<Rightarrow> token_request \<Rightarrow> world \<Rightarrow> (js_error + TokenResponse) \<times> world" where
  "post up req w =
     (case token_endpoint up req (store w) of
        (res, st) \<Rightarrow> (res, (emit (Post req res) w)\<lparr>store := st\<rparr>))"

section \<open>StravaService\<close>

definition exchangeAuthorizationCode ::
  "'st upstream \<Rightarrow> string \<Rightarrow> string \<Rightarrow> string \<Rightarrow> world \<Rightarrow> (js_error + TokenResponse) \<times> world" where
  "exchangeAuthorizationCode up clientId' clientSecret' authCode w =
     (case post up (AuthorizationCode clientId' clientSecret' authCode) w of
        (Inr data, w') \<Rightarrow> (Inr data, w')
      | (Inl error, w') \<Rightarrow>
          (Inl (Error_new (''Failed to exchange authorization code: '' @ to_string error)), w'))"

definition refreshAccessToken ::
  "'st upstream \<Rightarrow> string \<Rightarrow> string \<Rightarrow> string \<Rightarrow> world \<Rightarrow> (js_error + TokenResponse) \<times> world" where
  "refreshAccessToken up clientId' clientSecret' refreshToken' w =
     (case post up (RefreshToken clientId' clientSecret' refreshToken') w of
        (Inr data, w') \<Rightarrow> (Inr data, w')
      | (Inl error, w') \<Rightarrow>
          (Inl (Error_new (''Failed to refresh access token: '' @ to_string error)), w'))"

text \<open>
  \<^verbatim>\<open>getValidAccessToken\<close>: \<open>now\<close> is \<^verbatim>\<open>Math.floor(Date.now() / 1000)\<close>. The whole body is
  inside \<^verbatim>\<open>try\<close>; the \<^verbatim>\<open>catch\<close> logs and returns null, so a failed refresh is the result
  \<open>None\<close>.
\<close>

definition getValidAccessToken :: "'st upstream \<Rightarrow> int \<Rightarrow> world \<Rightarrow> string option \<times> world" where
  "getValidAccessToken up now w =
     (case getGlobalSettings w of (settings, w1) \<Rightarrow>
        let accessToken = string_or_null (settings ''accessToken'');
            refreshToken = string_or_null (settings ''refreshToken'');
            clientId = string_or_null (settings ''clientId'');
            clientSecret = string_or_null (settings ''clientSecret'');
            expiresAt = number_or_0 (settings ''expiresAt'')
        in if falsy accessToken \<or> falsy refreshToken then (None, w1)
           else if expiresAt - 300 > now then (accessToken, w1)
           else if falsy clientId \<or> falsy clientSecret then (None, w1)
           else (case refreshAccessToken up (text_of clientId) (text_of clientSecret)
                        (text_of refreshToken) w1 of
                   (Inl error, w2) \<Rightarrow> (None, w2)
                 | (Inr tokenResponse, w2) \<Rightarrow>
                     (Some (access_token tokenResponse),
                      setGlobalSettings
                        (settings(''accessToken'' := JStr (access_token tokenResponse),
                                  ''refreshToken'' := JStr (refresh_token tokenResponse),
                                  ''expiresAt'' := JNum (expires_at tokenResponse))) w2)))"

text \<open>\<^verbatim>\<open>getAuthenticatedAthlete\<close> and \<^verbatim>\<open>getAthleteStats\<close> of a service built with \<open>token\<close>.\<close>

definition getAuthenticatedAthlete ::
  "'st upstream \<Rightarrow> string \<Rightarrow> world \<Rightarrow> (js_error + Athlete) \<times> world" where
  "getAuthenticatedAthlete up token w =
     (case athlete_endpoint up token of
        Inr data \<Rightarrow> (Inr data, emit (ApiGet AthleteProfile token) w)
      | Inl error \<Rightarrow>
          (Inl (Error_new (''Failed to fetch athlete profile: '' @ to_string error)),
           emit (ApiGet AthleteProfile token) w))"

definition getAthleteStats ::
  "'st upstream \<Rightarrow> string \<Rightarrow> int \<Rightarrow> world \<Rightarrow> (js_error + 'st) \<times> world" where
  "getAthleteStats up token athleteId w =
     (case stats_endpoint up token athleteId of
        Inr data \<Rightarrow> (Inr data, emit (ApiGet (AthleteStats athleteId) token) w)
      | Inl error \<Rightarrow>
          (Inl (Error_new (''Failed to fetch athlete stats: '' @ to_string error)),
           emit (ApiGet (AthleteStats athleteId) token) w))"

section \<open>The OAuth setup action\<close>

text \<open>
  An instance of the action on the device (\<^verbatim>\<open>this.actions\<close>): its id and whether it has
  \<^verbatim>\<open>showOk\<close> and \<^verbatim>\<open>showAlert\<close> (\<^verbatim>\<open>'showOk' in action\<close>).
\<close>

record ui_action =
  action_id :: string
  has_showOk :: bool
  has_showAlert :: bool

text \<open>\<^verbatim>\<open>for (const action of this.actions) body(action)\<close>\<close>

fun for_actions :: "(ui_action \<Rightarrow> world \<Rightarrow> world) \<Rightarrow> ui_action list \<Rightarrow> world \<Rightarrow> world" where
  "for_actions body [] w = w"
| "for_actions body (a # as) w = for_actions body as (body a w)"

definition updateDisplay :: "ui_action list \<Rightarrow> int \<Rightarrow> world \<Rightarrow> world" where
  "updateDisplay actions now w =
     (case getGlobalSettings w of (globalSettings, w1) \<Rightarrow>
        let title =
              (if truthy (globalSettings ''accessToken'') \<and> truthy (globalSettings ''refreshToken'')
               then (let expiresAt = number_or_0 (globalSettings ''expiresAt'')
                     in if expiresAt > now then Connected ((expiresAt - now) div 3600)
                        else TokenExpired)
               else if truthy (globalSettings ''clientId'') \<and> truthy (globalSettings ''clientSecret'')
               then ReadyToAuth
               else NotConfigured)
        in for_actions (\<lambda>a. emit (StatusTitle (action_id a) title)) actions w1)"

definition validateApiConnection :: "'st upstream \<Rightarrow> string \<Rightarrow> world \<Rightarrow> bool \<times> world" where
  "validateApiConnection up token w =
     (case getAuthenticatedAthlete up token w of
        (Inr athlete', w') \<Rightarrow> (True, w')
      | (Inl error, w') \<Rightarrow> (False, w'))"

text \<open>The feedback loop that ends \<^verbatim>\<open>exchangeToken\<close> and the refresh of \<^verbatim>\<open>onKeyDown\<close>.\<close>

definition show_feedback :: "bool \<Rightarrow> ui_action \<Rightarrow> world \<Rightarrow> world" where
  "show_feedback isValid a w =
     (if isValid \<and> has_showOk a then emit (ShowOk (action_id a)) w
      else if \<not> isValid \<and> has_showAlert a then emit (ShowAlert (action_id a)) w
      else w)"

text \<open>The loop of the two \<^verbatim>\<open>catch\<close> blocks.\<close>

definition show_alert :: "ui_action \<Rightarrow> world \<Rightarrow> world" where
  "show_alert a w = (if has_showAlert a then emit (ShowAlert (action_id a)) w else w)"

definition exchangeToken ::
  "'st upstream \<Rightarrow> ui_action list \<Rightarrow> int \<Rightarrow> string \<Rightarrow> string \<Rightarrow> string \<Rightarrow> world \<Rightarrow> world" where
  "exchangeToken up actions now clientId' clientSecret' authCode w =
     (case exchangeAuthorizationCode up clientId' clientSecret' authCode w of
        (Inl error, w1) \<Rightarrow> for_actions show_alert actions w1
      | (Inr tokenResponse, w1) \<Rightarrow>
          (case getGlobalSettings w1 of (currentSettings, w2) \<Rightarrow>
             let w3 = setGlobalSettings
                        (currentSettings
                           (''clientId'' := JStr clientId',
                            ''clientSecret'' := JStr clientSecret',
                            ''accessToken'' := JStr (access_token tokenResponse),
                            ''refreshToken'' := JStr (refresh_token tokenResponse),
                            ''expiresAt'' := JNum (expires_at tokenResponse),
                            ''athleteId'' := (case athlete tokenResponse of
                                                None \<Rightarrow> JUndefined
                                              | Some a \<Rightarrow> JNum (id_num a)))) w2;
                 w4 = for_actions
                        (\<lambda>a. emit (SetSettings (action_id a)
                                 (empty_obj
                                    (''clientId'' := JStr clientId',
                                     ''clientSecret'' := JStr clientSecret',
                                     ''accessToken'' := JStr (access_token tokenResponse),
                                     ''refreshToken'' := JStr (refresh_token tokenResponse),
                                     ''expiresAt'' := JNum (expires_at tokenResponse),
                                     ''authCode'' := JStr []))))
                        actions w3
             in (case validateApiConnection up (access_token tokenResponse) w4 of
                   (isValid, w5) \<Rightarrow>
                     for_actions (show_feedback isValid) actions (updateDisplay actions now w5))))"

text \<open>
  \<^verbatim>\<open>String.prototype.trim\<close> removes the white space and the line terminators of
  ECMAScript from both ends. A string is the list of its UTF-8 bytes, so each of these
  characters is the byte sequence that encodes it: U+0009 to U+000D, U+0020, U+00A0,
  U+1680, U+2000 to U+200A, U+2028, U+2029, U+202F, U+205F, U+3000 and U+FEFF.
\<close>

definition white_space :: "string list" where
  "white_space =
     [[CHR 0x09], [CHR 0x0A], [CHR 0x0B], [CHR 0x0C], [CHR 0x0D], [CHR 0x20],
      [CHR 0xC2, CHR 0xA0],
      [CHR 0xE1, CHR 0x9A, CHR 0x80],
      [CHR 0xE2, CHR 0x80, CHR 0x80], [CHR 0xE2, CHR 0x80, CHR 0x81],
      [CHR 0xE2, CHR 0x80, CHR 0x82], [CHR 0xE2, CHR 0x80, CHR 0x83],
      [CHR 0xE2, CHR 0x80, CHR 0x84], [CHR 0xE2, CHR 0x80, CHR 0x85],
      [CHR 0xE2, CHR 0x80, CHR 0x86], [CHR 0xE2, CHR 0x80, CHR 0x87],
      [CHR 0xE2, CHR 0x80, CHR 0x88], [CHR 0xE2, CHR 0x80, CHR 0x89],
      [CHR 0xE2, CHR 0x80, CHR 0x8A],
      [CHR 0xE2, CHR 0x80, CHR 0xA8], [CHR 0xE2, CHR 0x80, CHR 0xA9],
      [CHR 0xE2, CHR 0x80, CHR 0xAF],
      [CHR 0xE2, CHR 0x81, CHR 0x9F],
      [CHR 0xE3, CHR 0x80, CHR 0x80],
      [CHR 0xEF, CHR 0xBB, CHR 0xBF]]"

text \<open>Remove from the front of \<open>s\<close> every leading occurrence of one of the sequences \<open>ps\<close>.\<close>

function strip_front :: "string list \<Rightarrow> string \<Rightarrow> string" where
  "strip_front ps s =
     (case List.find (\<lambda>p. p \<noteq> [] \<and> prefix p s) ps of
        None \<Rightarrow> s
      | Some p \<Rightarrow> strip_front ps (drop (length p) s))"
  by pat_completeness auto
termination
proof (relation "measure (\<lambda>(ps, s). length s)")
  show "wf (measure (\<lambda>(ps, s). length s))" by simp
next
  fix ps :: "string list" and s p :: string
  assume "List.find (\<lambda>p. p \<noteq> [] \<and> prefix p s) ps = Some p"
  then have "p \<noteq> []" and "prefix p s"
    by (auto simp: find_Some_iff)
  then have "s \<noteq> []" by auto
  with \<open>p \<noteq> []\<close> show "((ps, drop (length p) s), (ps, s)) \<in> measure (\<lambda>(ps, s). length s)"
    by simp
qed

definition trim :: "string \<Rightarrow> string" where
  "trim s = rev (strip_front (map rev white_space) (rev (strip_front white_space s)))"

text \<open>\<^verbatim>\<open>onDidReceiveSettings\<close>: \<open>settings\<close> is \<^verbatim>\<open>ev.payload.settings\<close>.\<close>

definition onDidReceiveSettings ::
  "'st upstream \<Rightarrow> ui_action list \<Rightarrow> int \<Rightarrow> jsobj \<Rightarrow> world \<Rightarrow> world" where
  "onDidReceiveSettings up actions now settings w =
     (let w1 = (if truthy (settings ''clientId'') \<or> truthy (settings ''clientSecret'')
                then (case getGlobalSettings w of (globalSettings, wa) \<Rightarrow>
                        setGlobalSettings
                          (globalSettings(''clientId'' := settings ''clientId'',
                                          ''clientSecret'' := settings ''clientSecret'')) wa)
                else w);
          authCode = (case settings ''authCode'' of JStr s \<Rightarrow> trim s | _ \<Rightarrow> []);
          clientId' = string_or_empty (settings ''clientId'');
          clientSecret' = string_or_empty (settings ''clientSecret'');
          w2 = (if authCode \<noteq> [] \<and> clientId' \<noteq> [] \<and> clientSecret' \<noteq> []
                then (case getGlobalSettings w1 of (globalSettings, wb) \<Rightarrow>
                        if \<not> truthy (globalSettings ''accessToken'')
                        then exchangeToken up actions now clientId' clientSecret' authCode wb
                        else wb)
                else w1)
      in updateDisplay actions now w2)"

text \<open>\<^verbatim>\<open>onKeyDown\<close>: \<open>settings\<close> is \<^verbatim>\<open>ev.payload.settings\<close>, the settings of the pressed key.\<close>

definition onKeyDown ::
  "'st upstream \<Rightarrow> ui_action list \<Rightarrow> int \<Rightarrow> jsobj \<Rightarrow> world \<Rightarrow> world" where
  "onKeyDown up actions now settings w =
     (case getGlobalSettings w of (globalSettings, w1) \<Rightarrow>
        let w' =
          (if truthy (globalSettings ''refreshToken'')
           then (let clientId' = string_or_empty (globalSettings ''clientId'');
                     clientSecret' = string_or_empty (globalSettings ''clientSecret'');
                     refreshToken' = string_or_empty (globalSettings ''refreshToken'')
                 in if clientId' \<noteq> [] \<and> clientSecret' \<noteq> [] \<and> refreshToken' \<noteq> []
                    then (case refreshAccessToken up clientId' clientSecret' refreshToken' w1 of
                            (Inl error, w2) \<Rightarrow> for_actions show_alert actions w2
                          | (Inr tokenResponse, w2) \<Rightarrow>
                              let w3 = setGlobalSettings
                                         (globalSettings
                                            (''accessToken'' := JStr (access_token tokenResponse),
                                             ''refreshToken'' := JStr (refresh_token tokenResponse),
                                             ''expiresAt'' := JNum (expires_at tokenResponse))) w2;
                                  w4 = for_actions
                                         (\<lambda>a. emit (SetSettings (action_id a)
                                            (settings
                                               (''accessToken'' := JStr (access_token tokenResponse),
                                                ''refreshToken'' := JStr (refresh_token tokenResponse),
                                                ''expiresAt'' := JNum (expires_at tokenResponse)))))
                                         actions w3
                              in (case validateApiConnection up (access_token tokenResponse) w4 of
                                    (isValid, w5) \<Rightarrow>
                                      for_actions (show_feedback isValid) actions w5))
                    else w1)
           else w1)
        in updateDisplay actions now w')"

text \<open>\<^verbatim>\<open>onSendToPlugin\<close>: the message of the property inspector, \<^verbatim>\<open>ev.payload\<close>.\<close>

record plugin_message =
  event_name :: string
  msg_clientId :: string
  msg_clientSecret :: string
  msg_authCode :: string

definition onSendToPlugin ::
  "'st upstream \<Rightarrow> ui_action list \<Rightarrow> int \<Rightarrow> plugin_message \<Rightarrow> world \<Rightarrow> world" where
  "onSendToPlugin up actions now payload w =
     (if event_name payload = ''exchangeToken''
      then exchangeToken up actions now (msg_clientId payload) (msg_clientSecret payload)
             (msg_authCode payload) w
      else w)"

section \<open>The display widgets\<close>

text \<open>
  The rate-limit test of every widget's \<^verbatim>\<open>catch\<close> block: a chain of \<^verbatim>\<open>||\<close>, used as the
  condition of an \<^verbatim>\<open>if\<close>. An empty message is falsy, so the chain goes on to
  \<^verbatim>\<open>toString()\<close>.
\<close>

definition is429 :: "js_error \<Rightarrow> bool" where
  "is429 error =
     (response_status error = Some 429
      \<or> status error = Some 429
      \<or> (case message error of
            None \<Rightarrow> False
          | Some m \<Rightarrow> m \<noteq> [] \<and> includes_str m ''429'')
      \<or> includes_str (to_string error) ''429'')"

text \<open>
  The \<^verbatim>\<open>catch\<close> blocks of \<^verbatim>\<open>updateYearDisplay\<close> (the month and the week widget have the
  same block) and of \<^verbatim>\<open>updateLastActivityDisplay\<close>. \<open>visible\<close> says whether
  \<^verbatim>\<open>streamDeck.actions.getActionById(actionId)\<close> finds the key.
\<close>

definition updateYearDisplay_catch :: "bool \<Rightarrow> string \<Rightarrow> js_error \<Rightarrow> world \<Rightarrow> world" where
  "updateYearDisplay_catch visible actionId error w =
     (if is429 error
      then (if visible
            then emit (SetImage actionId ''imgs/keys/background'')
                   (emit (SetTitle actionId ''Rate\<newline>Limit\<newline>Wait 30m'') w)
            else w)
      else (if visible
            then emit (SetImage actionId ''imgs/keys/background'')
                   (emit (SetTitle actionId ''Error\<newline>Check\<newline>Token'') w)
            else w))"

definition updateLastActivityDisplay_catch :: "bool \<Rightarrow> string \<Rightarrow> js_error \<Rightarrow> world \<Rightarrow> world" where
  "updateLastActivityDisplay_catch visible actionId error w =
     (if is429 error
      then (if visible then emit (SetTitle actionId ''Rate\<newline>Limit\<newline>Wait 30m'') w else w)
      else (if visible then emit (SetTitle actionId ''Error\<newline>Refresh\<newline>Auth'') w else w))"

text \<open>
  \<^verbatim>\<open>updateYearDisplay\<close>. The text of the key is floating-point formatting of the
  statistics under the key's settings; \<open>render\<close> stands for that part of the \<^verbatim>\<open>try\<close>
  block: it gives the text and whether the goal is reached, or the error it throws.
\<close>

definition updateYearDisplay ::
  "'st upstream \<Rightarrow> ('st \<Rightarrow> js_error + string \<times> bool) \<Rightarrow> bool \<Rightarrow> string \<Rightarrow> int \<Rightarrow> world \<Rightarrow> world" where
  "updateYearDisplay up render visible actionId now w =
     (case getValidAccessToken up now w of (accessToken, w1) \<Rightarrow>
        if falsy accessToken
        then (if visible then emit (SetTitle actionId ''Setup\<newline>OAuth\<newline>First'') w1 else w1)
        else (case getAuthenticatedAthlete up (text_of accessToken) w1 of
                (Inl error, w2) \<Rightarrow> updateYearDisplay_catch visible actionId error w2
              | (Inr athlete', w2) \<Rightarrow>
                  (case getAthleteStats up (text_of accessToken) (id_num athlete') w2 of
                     (Inl error, w3) \<Rightarrow> updateYearDisplay_catch visible actionId error w3
                   | (Inr stats, w3) \<Rightarrow>
                       (case render stats of
                          Inl error \<Rightarrow> updateYearDisplay_catch visible actionId error w3
                        | Inr (displayText, goalReached) \<Rightarrow>
                            if visible
                            then emit (SetImage actionId
                                         (if goalReached then ''imgs/keys/background-goalreach''
                                          else ''imgs/keys/background''))
                                   (emit (SetTitle actionId displayText) w3)
                            else w3))))"

section \<open>Observations on a trace\<close>

fun is_network :: "event \<Rightarrow> bool" where
  "is_network (Post req res) = True"
| "is_network (ApiGet req token) = True"
| "is_network e = False"

fun is_token_call :: "event \<Rightarrow> bool" where
  "is_token_call (Post req res) = True"
| "is_token_call e = False"

fun is_write :: "event \<Rightarrow> bool" where
  "is_write (SetGlobalSettings before obj) = True"
| "is_write e = False"

text \<open>The world an operation starts in: the store \<open>s\<close> and an empty trace.\<close>

definition start :: "jsobj \<Rightarrow> world" where
  "start s = \<lparr>store = s, trace = []\<rparr>"

text \<open>The part of a trace that concerns the credentials: writes of the store and calls
  of the token endpoint.\<close>

definition core :: "event list \<Rightarrow> event list" where
  "core es = filter (\<lambda>e. is_write e \<or> is_token_call e) es"

text \<open>The three credential fields of a stored record, and of a token response as the
  code stores it.\<close>

definition tokens :: "jsobj \<Rightarrow> jsval \<times> jsval \<times> jsval" where
  "tokens obj = (obj ''accessToken'', obj ''refreshToken'', obj ''expiresAt'')"

definition issued :: "TokenResponse \<Rightarrow> jsval \<times> jsval \<times> jsval" where
  "issued t = (JStr (access_token t), JStr (refresh_token t), JNum (expires_at t))"

text \<open>
  A trace updates the tokens together when every write that follows a successful token
  call sets all three credential fields from the response of that call, and every other
  write keeps all three as they are in the store it replaces. \<open>r\<close> is the response of the
  last token call, \<open>None\<close> before any call and after a failed one.
\<close>

fun together :: "TokenResponse option \<Rightarrow> event list \<Rightarrow> bool" where
  "together r [] = True"
| "together r (Post req res # es) =
     together (case res of Inl error \<Rightarrow> None | Inr t \<Rightarrow> Some t) es"
| "together r (SetGlobalSettings before obj # es) =
     ((case r of None \<Rightarrow> tokens obj = tokens before | Some t \<Rightarrow> tokens obj = issued t)
      \<and> together r es)"
| "together r (e # es) = together r es"

text \<open>
  The path of \<open>getValidAccessToken\<close> that reaches the refresh call: both tokens stored,
  the margin passed, client id and secret stored.
\<close>

definition refresh_due :: "jsobj \<Rightarrow> int \<Rightarrow> bool" where
  "refresh_due s now =
     (\<not> falsy (string_or_null (s ''accessToken''))
      \<and> \<not> falsy (string_or_null (s ''refreshToken''))
      \<and> \<not> number_or_0 (s ''expiresAt'') - 300 > now
      \<and> \<not> falsy (string_or_null (s ''clientId''))
      \<and> \<not> falsy (string_or_null (s ''clientSecret'')))"

definition refresh_request :: "jsobj \<Rightarrow> token_request" where
  "refresh_request s =
     RefreshToken (text_of (string_or_null (s ''clientId'')))
       (text_of (string_or_null (s ''clientSecret'')))
       (text_of (string_or_null (s ''refreshToken'')))"

section \<open>Concrete scenarios\<close>

text \<open>A complete record whose token expires at 2000, and the same record without the
  client id.\<close>

definition stored :: jsobj where
  "stored = empty_obj
     (''clientId'' := JStr ''id'', ''clientSecret'' := JStr ''secret'',
      ''accessToken'' := JStr ''old-access'', ''refreshToken'' := JStr ''old-refresh'',
      ''expiresAt'' := JNum 2000)"

definition stored_no_client :: jsobj where
  "stored_no_client = stored(''clientId'' := JUndefined)"

definition fresh_tokens :: TokenResponse where
  "fresh_tokens =
     \<lparr>token_type = ''Bearer'', expires_at = 30000, expires_in = 21600,
      refresh_token = ''new-refresh'', access_token = ''new-access'', athlete = None\<rparr>"

text \<open>The errors axios throws for the HTTP status 429 and 400.\<close>

definition http_429 :: js_error where
  "http_429 =
     \<lparr>response_status = Some 429, status = Some 429,
      message = Some ''Request failed with status code 429'',
      to_string = ''AxiosError: Request failed with status code 429''\<rparr>"

definition http_400 :: js_error where
  "http_400 =
     \<lparr>response_status = Some 400, status = Some 400,
      message = Some ''Request failed with status code 400'',
      to_string = ''AxiosError: Request failed with status code 400''\<rparr>"

text \<open>The error axios throws when the connection is refused, here by a proxy on port
  4290: there is no response, so it has no status.\<close>

definition refused_4290 :: js_error where
  "refused_4290 =
     \<lparr>response_status = None, status = None,
      message = Some ''connect ECONNREFUSED 127.0.0.1:4290'',
      to_string = ''AxiosError: connect ECONNREFUSED 127.0.0.1:4290''\<rparr>"

definition profile :: Athlete where
  "profile = \<lparr>id_num = 7, firstname = None, lastname = None\<rparr>"

text \<open>An upstream that issues \<open>fresh_tokens\<close>, one that answers every token call with 429,
  one that answers with 400, and one that rejects the refresh because another widget has
  used the refresh token first: that widget's write is in the store when the call returns.\<close>

definition upstream_ok :: "unit upstream" where
  "upstream_ok =
     \<lparr>token_endpoint = (\<lambda>req st. (Inr fresh_tokens, st)),
      athlete_endpoint = (\<lambda>token. Inr profile),
      stats_endpoint = (\<lambda>token athleteId. Inr ())\<rparr>"

definition upstream_429 :: "unit upstream" where
  "upstream_429 = upstream_ok\<lparr>token_endpoint := (\<lambda>req st. (Inl http_429, st))\<rparr>"

definition upstream_400 :: "unit upstream" where
  "upstream_400 = upstream_ok\<lparr>token_endpoint := (\<lambda>req st. (Inl http_400, st))\<rparr>"

definition upstream_raced :: "unit upstream" where
  "upstream_raced =
     upstream_ok\<lparr>token_endpoint :=
       (\<lambda>req st. (Inl http_400,
          st(''accessToken'' := JStr ''new-access'', ''refreshToken'' := JStr ''new-refresh'',
             ''expiresAt'' := JNum 30000)))\<rparr>"

text \<open>An upstream that cannot be reached for the resource calls.\<close>

definition upstream_refused :: "unit upstream" where
  "upstream_refused = upstream_ok\<lparr>athlete_endpoint := (\<lambda>token. Inl refused_4290)\<rparr>"

definition key :: ui_action where
  "key = \<lparr>action_id = ''key'', has_showOk = True, has_showAlert = True\<rparr>"

definition render_text :: "unit \<Rightarrow> js_error + string \<times> bool" where
  "render_text stats = Inr (''YEAR'', False)"

definition exchange_message :: plugin_message where
  "exchange_message =
     \<lparr>event_name = ''exchangeToken'', msg_clientId = ''id'', msg_clientSecret = ''secret'',
      msg_authCode = ''code''\<rparr>"

definition received_settings :: jsobj where
  "received_settings = empty_obj
     (''clientId'' := JStr ''id'', ''clientSecret'' := JStr ''secret'',
      ''authCode'' := JStr '' code '')"

section \<open>Basic facts\<close>

lemma store_emit [simp]: "store (emit e w) = store w"
  by (simp add: emit_def)

lemma trace_emit [simp]: "trace (emit e w) = trace w @ [e]"
  by (simp add: emit_def)

lemma store_start [simp]: "store (start s) = s"
  by (simp add: start_def)

lemma trace_start [simp]: "trace (start s) = []"
  by (simp add: start_def)

lemma core_Nil [simp]: "core [] = []"
  by (simp add: core_def)

lemma core_append [simp]: "core (xs @ ys) = core xs @ core ys"
  by (simp add: core_def)

lemma core_Cons: "core (e # es) = (if is_write e \<or> is_token_call e then e # core es else core es)"
  by (simp add: core_def)

lemma filter_write_core: "filter is_write (core es) = filter is_write es"
  by (induction es) (auto simp: core_Cons)

lemma filter_token_call_core: "filter is_token_call (core es) = filter is_token_call es"
  by (induction es) (auto simp: core_Cons)

lemma together_core: "together r (core es) = together r es"
  by (induction r es rule: together.induct) (simp_all add: core_Cons)

text \<open>The checker rejects a write that replaces the access token alone, before and after
  a token response.\<close>

lemma together_rejects_partial:
  "\<not> together None [SetGlobalSettings stored (stored(''accessToken'' := JStr ''new-access''))]"
  "\<not> together (Some fresh_tokens)
       [SetGlobalSettings stored (stored(''accessToken'' := JStr ''new-access''))]"
  by (simp_all add: tokens_def issued_def stored_def empty_obj_def fresh_tokens_def)

text \<open>\<^verbatim>\<open>includes\<close> is the substring relation.\<close>

lemma includes_str_sublist: "includes_str s p \<longleftrightarrow> sublist p s"
proof (induction s)
  case Nil
  show ?case by auto
next
  case (Cons c cs)
  have "take (length p) (c # cs) = p \<longleftrightarrow> prefix p (c # cs)"
    by (metis prefix_def append_eq_conv_conj append_take_drop_id)
  with Cons show ?case by (simp add: sublist_Cons_right)
qed

lemma is429_sublist:
  "is429 error \<longleftrightarrow>
     response_status error = Some 429 \<or> status error = Some 429
     \<or> (\<exists>m. message error = Some m \<and> sublist ''429'' m)
     \<or> sublist ''429'' (to_string error)"
  by (auto simp: is429_def includes_str_sublist split: option.splits)

section \<open>The paths of getValidAccessToken\<close>

lemma getValidAccessToken_start:
  "getValidAccessToken up now (start s) =
     (if falsy (string_or_null (s ''accessToken'')) \<or> falsy (string_or_null (s ''refreshToken''))
      then (None, \<lparr>store = s, trace = [GetGlobalSettings]\<rparr>)
      else if number_or_0 (s ''expiresAt'') - 300 > now
      then (string_or_null (s ''accessToken''), \<lparr>store = s, trace = [GetGlobalSettings]\<rparr>)
      else if falsy (string_or_null (s ''clientId'')) \<or> falsy (string_or_null (s ''clientSecret''))
      then (None, \<lparr>store = s, trace = [GetGlobalSettings]\<rparr>)
      else (case token_endpoint up (refresh_request s) s of
              (Inl error, st) \<Rightarrow>
                (None, \<lparr>store = st,
                         trace = [GetGlobalSettings, Post (refresh_request s) (Inl error)]\<rparr>)
            | (Inr t, st) \<Rightarrow>
                (Some (access_token t),
                 \<lparr>store = s(''accessToken'' := JStr (access_token t),
                             ''refreshToken'' := JStr (refresh_token t),
                             ''expiresAt'' := JNum (expires_at t)),
                  trace = [GetGlobalSettings, Post (refresh_request s) (Inr t),
                           SetGlobalSettings st
                             (s(''accessToken'' := JStr (access_token t),
                                ''refreshToken'' := JStr (refresh_token t),
                                ''expiresAt'' := JNum (expires_at t)))]\<rparr>)))"
  by (simp add: getValidAccessToken_def getGlobalSettings_def setGlobalSettings_def
      refreshAccessToken_def post_def refresh_request_def start_def emit_def Let_def
      split: prod.splits sum.splits)

section \<open>The setup action leaves the credentials to its store writes\<close>

lemma for_actions_frame:
  assumes "\<And>a w. store (body a w) = store w"
    and "\<And>a w. core (trace (body a w)) = core (trace w)"
  shows "store (for_actions body as w) = store w
       \<and> core (trace (for_actions body as w)) = core (trace w)"
  using assms by (induction as arbitrary: w) simp_all

lemma show_alert_frame [simp]:
  "store (for_actions show_alert as w) = store w"
  "core (trace (for_actions show_alert as w)) = core (trace w)"
  by (rule for_actions_frame [THEN conjunct1] for_actions_frame [THEN conjunct2];
      simp add: show_alert_def core_def)+

lemma show_feedback_frame [simp]:
  "store (for_actions (show_feedback v) as w) = store w"
  "core (trace (for_actions (show_feedback v) as w)) = core (trace w)"
  by (rule for_actions_frame [THEN conjunct1] for_actions_frame [THEN conjunct2];
      simp add: show_feedback_def core_def)+

lemma emit_ui_frame [simp]:
  "store (for_actions (\<lambda>a. emit (SetSettings (action_id a) obj)) as w) = store w"
  "core (trace (for_actions (\<lambda>a. emit (SetSettings (action_id a) obj)) as w)) = core (trace w)"
  "store (for_actions (\<lambda>a. emit (StatusTitle (action_id a) t)) as w) = store w"
  "core (trace (for_actions (\<lambda>a. emit (StatusTitle (action_id a) t)) as w)) = core (trace w)"
  by (rule for_actions_frame [THEN conjunct1] for_actions_frame [THEN conjunct2];
      simp add: core_def)+

lemma updateDisplay_frame [simp]:
  "store (updateDisplay actions now w) = store w"
  "core (trace (updateDisplay actions now w)) = core (trace w)"
  by (simp_all add: updateDisplay_def getGlobalSettings_def Let_def core_Cons)

lemma validateApiConnection_frame [simp]:
  "store (snd (validateApiConnection up token w)) = store w"
  "core (trace (snd (validateApiConnection up token w))) = core (trace w)"
  by (simp_all add: validateApiConnection_def getAuthenticatedAthlete_def core_Cons
      split: sum.splits prod.splits)

lemma exchangeToken_core:
  "core (trace (exchangeToken up actions now c k code w)) =
     core (trace w) @
     (case token_endpoint up (AuthorizationCode c k code) (store w) of
        (Inl error, st) \<Rightarrow> [Post (AuthorizationCode c k code) (Inl error)]
      | (Inr t, st) \<Rightarrow>
          [Post (AuthorizationCode c k code) (Inr t),
           SetGlobalSettings st
             (st(''clientId'' := JStr c, ''clientSecret'' := JStr k,
                 ''accessToken'' := JStr (access_token t),
                 ''refreshToken'' := JStr (refresh_token t),
                 ''expiresAt'' := JNum (expires_at t),
                 ''athleteId'' := (case athlete t of None \<Rightarrow> JUndefined
                                   | Some a \<Rightarrow> JNum (id_num a))))])"
  by (simp add: exchangeToken_def exchangeAuthorizationCode_def post_def getGlobalSettings_def
      setGlobalSettings_def Let_def core_Cons split_beta
      split: prod.splits sum.splits)

lemma exchangeToken_store:
  "store (exchangeToken up actions now c k code w) =
     (case token_endpoint up (AuthorizationCode c k code) (store w) of
        (Inl error, st) \<Rightarrow> st
      | (Inr t, st) \<Rightarrow>
          st(''clientId'' := JStr c, ''clientSecret'' := JStr k,
             ''accessToken'' := JStr (access_token t),
             ''refreshToken'' := JStr (refresh_token t),
             ''expiresAt'' := JNum (expires_at t),
             ''athleteId'' := (case athlete t of None \<Rightarrow> JUndefined
                               | Some a \<Rightarrow> JNum (id_num a))))"
  by (simp add: exchangeToken_def exchangeAuthorizationCode_def post_def getGlobalSettings_def
      setGlobalSettings_def Let_def split_beta
      split: prod.splits sum.splits)

lemma onKeyDown_core:
  "core (trace (onKeyDown up actions now payload (start s))) =
     (if truthy (s ''refreshToken'')
         \<and> string_or_empty (s ''clientId'') \<noteq> []
         \<and> string_or_empty (s ''clientSecret'') \<noteq> []
         \<and> string_or_empty (s ''refreshToken'') \<noteq> []
      then (let req = RefreshToken (string_or_empty (s ''clientId''))
                        (string_or_empty (s ''clientSecret''))
                        (string_or_empty (s ''refreshToken''))
            in case token_endpoint up req s of
                 (Inl error, st) \<Rightarrow> [Post req (Inl error)]
               | (Inr t, st) \<Rightarrow>
                   [Post req (Inr t),
                    SetGlobalSettings st
                      (s(''accessToken'' := JStr (access_token t),
                         ''refreshToken'' := JStr (refresh_token t),
                         ''expiresAt'' := JNum (expires_at t)))])
      else [])"
  by (simp add: onKeyDown_def refreshAccessToken_def post_def getGlobalSettings_def
      setGlobalSettings_def Let_def core_Cons split_beta
      split: prod.splits sum.splits)

lemma onDidReceiveSettings_core:
  "core (trace (onDidReceiveSettings up actions now settings (start s))) =
     (let saved = (if truthy (settings ''clientId'') \<or> truthy (settings ''clientSecret'')
                   then s(''clientId'' := settings ''clientId'',
                          ''clientSecret'' := settings ''clientSecret'')
                   else s);
          authCode = (case settings ''authCode'' of JStr x \<Rightarrow> trim x | _ \<Rightarrow> []);
          req = AuthorizationCode (string_or_empty (settings ''clientId''))
                  (string_or_empty (settings ''clientSecret'')) authCode
      in (if truthy (settings ''clientId'') \<or> truthy (settings ''clientSecret'')
          then [SetGlobalSettings s saved] else [])
         @ (if authCode \<noteq> [] \<and> string_or_empty (settings ''clientId'') \<noteq> []
               \<and> string_or_empty (settings ''clientSecret'') \<noteq> []
               \<and> \<not> truthy (s ''accessToken'')
            then core (trace (exchangeToken up actions now
                   (string_or_empty (settings ''clientId''))
                   (string_or_empty (settings ''clientSecret'')) authCode (start saved)))
            else []))"
  by (simp add: onDidReceiveSettings_def getGlobalSettings_def
      setGlobalSettings_def Let_def core_Cons exchangeToken_core)

section \<open>A rate limit met by a resource call\<close>

lemma is429_wrapped:
  assumes "sublist ''429'' text"
  shows "is429 (Error_new (intro @ text))"
proof -
  from assms obtain ps ss where "text = ps @ ''429'' @ ss"
    by (auto simp: sublist_def)
  then have "intro @ text = (intro @ ps) @ ''429'' @ ss" by simp
  then have "sublist ''429'' (intro @ text)"
    unfolding sublist_def by blast
  moreover from assms have "text \<noteq> []" by auto
  ultimately show ?thesis
    by (simp add: is429_sublist Error_new_def)
qed

text \<open>
  With a token that is still valid, a profile request that upstream answers with 429 is
  wrapped by the service into \<^verbatim>\<open>new Error\<close>, whose text still contains \<^verbatim>\<open>429\<close>, and the
  year widget shows the rate-limit title.
\<close>

lemma api_429_shown_as_rate_limit:
  assumes "s ''accessToken'' = JStr a" and "a \<noteq> []"
    and "s ''refreshToken'' = JStr r" and "r \<noteq> []"
    and "number_or_0 (s ''expiresAt'') - 300 > now"
    and "athlete_endpoint up a = Inl error"
    and "sublist ''429'' (to_string error)"
  shows "trace (updateYearDisplay up render True actionId now (start s))
           = [GetGlobalSettings, ApiGet AthleteProfile a,
              SetTitle actionId ''Rate\<newline>Limit\<newline>Wait 30m'',
              SetImage actionId ''imgs/keys/background'']"
  using assms is429_wrapped [of "to_string error" "''Failed to fetch athlete profile: ''"]
  by (simp add: updateYearDisplay_def getValidAccessToken_start getAuthenticatedAthlete_def
      updateYearDisplay_catch_def)

section \<open>What the setup action leaves in the store\<close>

lemma onKeyDown_store:
  "store (onKeyDown up actions now payload (start s)) =
     (if truthy (s ''refreshToken'')
         \<and> string_or_empty (s ''clientId'') \<noteq> []
         \<and> string_or_empty (s ''clientSecret'') \<noteq> []
         \<and> string_or_empty (s ''refreshToken'') \<noteq> []
      then (case token_endpoint up
                   (RefreshToken (string_or_empty (s ''clientId''))
                      (string_or_empty (s ''clientSecret''))
                      (string_or_empty (s ''refreshToken''))) s of
              (Inl error, st) \<Rightarrow> st
            | (Inr t, st) \<Rightarrow>
                s(''accessToken'' := JStr (access_token t),
                  ''refreshToken'' := JStr (refresh_token t),
                  ''expiresAt'' := JNum (expires_at t)))
      else s)"
  by (simp add: onKeyDown_def refreshAccessToken_def post_def getGlobalSettings_def
      setGlobalSettings_def Let_def split_beta
      split: prod.splits sum.splits)

lemma onDidReceiveSettings_store:
  "store (onDidReceiveSettings up actions now settings (start s)) =
     (let saved = (if truthy (settings ''clientId'') \<or> truthy (settings ''clientSecret'')
                   then s(''clientId'' := settings ''clientId'',
                          ''clientSecret'' := settings ''clientSecret'')
                   else s);
          authCode = (case settings ''authCode'' of JStr x \<Rightarrow> trim x | _ \<Rightarrow> [])
      in if authCode \<noteq> [] \<and> string_or_empty (settings ''clientId'') \<noteq> []
            \<and> string_or_empty (settings ''clientSecret'') \<noteq> []
            \<and> \<not> truthy (s ''accessToken'')
         then store (exchangeToken up actions now
                (string_or_empty (settings ''clientId''))
                (string_or_empty (settings ''clientSecret'')) authCode (start saved))
         else saved)"
  by (simp add: onDidReceiveSettings_def getGlobalSettings_def
      setGlobalSettings_def Let_def exchangeToken_store)

section \<open>Expiry margin and refresh\<close>



section \<open>Missing credentials\<close>

text \<open>
  C2. Whenever the stored record has no access token or no refresh token (the property is
  not a string, or is the empty string), \<open>getValidAccessToken\<close> returns null; all it does
  is one read of the store, so it makes no network call.
\<close>

theorem getValidAccessToken_unauthenticated:
  assumes "falsy (string_or_null (s ''accessToken''))
         \<or> falsy (string_or_null (s ''refreshToken''))"
  shows "getValidAccessToken up now (start s)
           = (None, \<lparr>store = s, trace = [GetGlobalSettings]\<rparr>)
       \<and> filter is_network (trace (snd (getValidAccessToken up now (start s)))) = []"
  using assms by (auto simp: getValidAccessToken_start)

theorem getValidAccessToken_unauthenticated_witness:
  "falsy (string_or_null ((stored(''refreshToken'' := JUndefined)) ''refreshToken''))
   \<and> getValidAccessToken upstream_ok 1900 (start (stored(''refreshToken'' := JUndefined)))
        = (None, \<lparr>store = stored(''refreshToken'' := JUndefined), trace = [GetGlobalSettings]\<rparr>)
   \<and> filter is_network
        (trace (snd (getValidAccessToken upstream_ok 1900
                       (start (stored(''refreshToken'' := JUndefined)))))) = []"
  using getValidAccessToken_unauthenticated
    [where s = "stored(''refreshToken'' := JUndefined)" and now = 1900 and up = upstream_ok]
  by simp

text \<open>
  C5, as the code has it. The client id and secret are looked at only once the token is
  found stale. With the client id or the client secret missing, \<open>getValidAccessToken\<close>
  makes no network call and only reads the store; it returns null, except when both tokens
  are stored and \<open>e - 300 > t\<close>: then it returns the stored access token.
\<close>

theorem getValidAccessToken_without_client:
  assumes "falsy (string_or_null (s ''clientId''))
         \<or> falsy (string_or_null (s ''clientSecret''))"
  shows "getValidAccessToken up now (start s)
           = (if \<not> falsy (string_or_null (s ''accessToken''))
                 \<and> \<not> falsy (string_or_null (s ''refreshToken''))
                 \<and> number_or_0 (s ''expiresAt'') - 300 > now
              then string_or_null (s ''accessToken'') else None,
              \<lparr>store = s, trace = [GetGlobalSettings]\<rparr>)
       \<and> filter is_network (trace (snd (getValidAccessToken up now (start s)))) = []"
  using assms by (auto simp: getValidAccessToken_start)

theorem getValidAccessToken_without_client_witness:
  "falsy (string_or_null (stored_no_client ''clientId''))
   \<and> fst (getValidAccessToken upstream_ok 1900 (start stored_no_client)) = None
   \<and> filter is_network
        (trace (snd (getValidAccessToken upstream_ok 1900 (start stored_no_client)))) = []"
  using getValidAccessToken_without_client
    [where s = stored_no_client and now = 1900 and up = upstream_ok]
  by (simp add: stored_no_client_def stored_def empty_obj_def)

text \<open>
  C5 as stated fails: without a client id, at time 1000 and with the token expiring at
  2000, the result is the stored access token, not null.
\<close>

theorem valid_token_returned_without_client:
  "falsy (string_or_null (stored_no_client ''clientId''))
   \<and> fst (getValidAccessToken upstream_ok 1000 (start stored_no_client)) = Some ''old-access''"
  by (simp add: getValidAccessToken_start stored_no_client_def stored_def empty_obj_def)

section \<open>Store writes\<close>

text \<open>
  C3. In every operation that writes the store (\<open>getValidAccessToken\<close>, \<open>onKeyDown\<close>,
  \<open>exchangeToken\<close>, and through it \<open>onSendToPlugin\<close> and \<open>onDidReceiveSettings\<close>), every
  write that follows a successful refresh or exchange sets access token, refresh token
  and expiry, all three, from the response, and every other write keeps all three as
  they are in the store: no write replaces one of them without the others. After a
  successful refresh (in \<open>getValidAccessToken\<close> or by a key press) or exchange the store
  holds the three values of the response, put there by a single write.
\<close>

theorem tokens_written_together:
  "together None (trace (snd (getValidAccessToken up now (start s))))
   \<and> together None (trace (onKeyDown up actions now payload (start s)))
   \<and> together None (trace (exchangeToken up actions now c k code (start s)))
   \<and> together None (trace (onSendToPlugin up actions now msg (start s)))
   \<and> together None (trace (onDidReceiveSettings up actions now settings (start s)))
   \<and> (refresh_due s now \<and> fst (token_endpoint up (refresh_request s) s) = Inr t \<longrightarrow>
        tokens (store (snd (getValidAccessToken up now (start s)))) = issued t
        \<and> filter is_write (trace (snd (getValidAccessToken up now (start s))))
            = [SetGlobalSettings (snd (token_endpoint up (refresh_request s) s))
                 (s(''accessToken'' := JStr (access_token t),
                    ''refreshToken'' := JStr (refresh_token t),
                    ''expiresAt'' := JNum (expires_at t)))])
   \<and> (fst (token_endpoint up (AuthorizationCode c k code) s) = Inr t \<longrightarrow>
        tokens (store (exchangeToken up actions now c k code (start s))) = issued t
        \<and> length (filter is_write (trace (exchangeToken up actions now c k code (start s)))) = 1)
   \<and> (s ''refreshToken'' = JStr r \<and> r \<noteq> [] \<and> s ''clientId'' = JStr c \<and> c \<noteq> []
        \<and> s ''clientSecret'' = JStr k \<and> k \<noteq> []
        \<and> fst (token_endpoint up (RefreshToken c k r) s) = Inr t \<longrightarrow>
        tokens (store (onKeyDown up actions now payload (start s))) = issued t
        \<and> filter is_write (trace (onKeyDown up actions now payload (start s)))
            = [SetGlobalSettings (snd (token_endpoint up (RefreshToken c k r) s))
                 (s(''accessToken'' := JStr (access_token t),
                    ''refreshToken'' := JStr (refresh_token t),
                    ''expiresAt'' := JNum (expires_at t)))])
   \<and> (event_name msg = ''exchangeToken''
        \<and> fst (token_endpoint up
                 (AuthorizationCode (msg_clientId msg) (msg_clientSecret msg) (msg_authCode msg)) s)
            = Inr t \<longrightarrow>
        tokens (store (onSendToPlugin up actions now msg (start s))) = issued t)
   \<and> (settings ''clientId'' = JStr c \<and> c \<noteq> [] \<and> settings ''clientSecret'' = JStr k \<and> k \<noteq> []
        \<and> settings ''authCode'' = JStr x \<and> trim x \<noteq> [] \<and> \<not> truthy (s ''accessToken'')
        \<and> fst (token_endpoint up (AuthorizationCode c k (trim x))
                 (s(''clientId'' := JStr c, ''clientSecret'' := JStr k))) = Inr t \<longrightarrow>
        tokens (store (onDidReceiveSettings up actions now settings (start s))) = issued t)"
proof -
  have 1: "together None (trace (snd (getValidAccessToken up now (start s))))"
    by (simp add: getValidAccessToken_start tokens_def issued_def split: prod.splits sum.splits)
  have 2: "together None (core (trace (onKeyDown up actions now payload (start s))))"
    by (simp add: onKeyDown_core tokens_def issued_def Let_def split: prod.splits sum.splits)
  have 3: "together None (core (trace (exchangeToken up actions now c k code (start s))))"
    for c k code s
    by (simp add: exchangeToken_core tokens_def issued_def split: prod.splits sum.splits)
  have 4: "together None (core (trace (onSendToPlugin up actions now msg (start s))))"
    using 3 by (simp add: onSendToPlugin_def)
  have 5: "together None (core (trace (onDidReceiveSettings up actions now settings (start s))))"
    by (simp add: onDidReceiveSettings_core exchangeToken_core tokens_def issued_def Let_def
        split: prod.splits sum.splits)
  have 6: "refresh_due s now \<and> fst (token_endpoint up (refresh_request s) s) = Inr t \<longrightarrow>
        tokens (store (snd (getValidAccessToken up now (start s)))) = issued t
        \<and> filter is_write (trace (snd (getValidAccessToken up now (start s))))
            = [SetGlobalSettings (snd (token_endpoint up (refresh_request s) s))
                 (s(''accessToken'' := JStr (access_token t),
                    ''refreshToken'' := JStr (refresh_token t),
                    ''expiresAt'' := JNum (expires_at t)))]"
    by (auto simp: getValidAccessToken_start refresh_due_def tokens_def issued_def
        split: prod.splits sum.splits)
  have 7: "fst (token_endpoint up (AuthorizationCode c k code) s) = Inr t \<longrightarrow>
        tokens (store (exchangeToken up actions now c k code (start s))) = issued t"
    for c k code s
    by (auto simp: exchangeToken_store tokens_def issued_def split: prod.splits sum.splits)
  have "fst (token_endpoint up (AuthorizationCode c k code) s) = Inr t \<longrightarrow>
        length (filter is_write
          (core (trace (exchangeToken up actions now c k code (start s))))) = 1"
    by (auto simp: exchangeToken_core split: prod.splits sum.splits)
  then have 8: "fst (token_endpoint up (AuthorizationCode c k code) s) = Inr t \<longrightarrow>
        length (filter is_write (trace (exchangeToken up actions now c k code (start s)))) = 1"
    by (simp add: filter_write_core)
  have 9: "s ''refreshToken'' = JStr r \<and> r \<noteq> [] \<and> s ''clientId'' = JStr c \<and> c \<noteq> []
        \<and> s ''clientSecret'' = JStr k \<and> k \<noteq> []
        \<and> fst (token_endpoint up (RefreshToken c k r) s) = Inr t \<longrightarrow>
        tokens (store (onKeyDown up actions now payload (start s))) = issued t"
    by (auto simp: onKeyDown_store tokens_def issued_def split: prod.splits sum.splits)
  have "s ''refreshToken'' = JStr r \<and> r \<noteq> [] \<and> s ''clientId'' = JStr c \<and> c \<noteq> []
        \<and> s ''clientSecret'' = JStr k \<and> k \<noteq> []
        \<and> fst (token_endpoint up (RefreshToken c k r) s) = Inr t \<longrightarrow>
        filter is_write (core (trace (onKeyDown up actions now payload (start s))))
            = [SetGlobalSettings (snd (token_endpoint up (RefreshToken c k r) s))
                 (s(''accessToken'' := JStr (access_token t),
                    ''refreshToken'' := JStr (refresh_token t),
                    ''expiresAt'' := JNum (expires_at t)))]"
    by (auto simp: onKeyDown_core Let_def split: prod.splits sum.splits)
  then have 10: "s ''refreshToken'' = JStr r \<and> r \<noteq> [] \<and> s ''clientId'' = JStr c \<and> c \<noteq> []
        \<and> s ''clientSecret'' = JStr k \<and> k \<noteq> []
        \<and> fst (token_endpoint up (RefreshToken c k r) s) = Inr t \<longrightarrow>
        filter is_write (trace (onKeyDown up actions now payload (start s)))
            = [SetGlobalSettings (snd (token_endpoint up (RefreshToken c k r) s))
                 (s(''accessToken'' := JStr (access_token t),
                    ''refreshToken'' := JStr (refresh_token t),
                    ''expiresAt'' := JNum (expires_at t)))]"
    by (simp add: filter_write_core)
  have 11: "event_name msg = ''exchangeToken''
        \<and> fst (token_endpoint up
                 (AuthorizationCode (msg_clientId msg) (msg_clientSecret msg) (msg_authCode msg)) s)
            = Inr t \<longrightarrow>
        tokens (store (onSendToPlugin up actions now msg (start s))) = issued t"
    using 7 by (simp add: onSendToPlugin_def)
  have 12: "settings ''clientId'' = JStr c \<and> c \<noteq> [] \<and> settings ''clientSecret'' = JStr k \<and> k \<noteq> []
        \<and> settings ''authCode'' = JStr x \<and> trim x \<noteq> [] \<and> \<not> truthy (s ''accessToken'')
        \<and> fst (token_endpoint up (AuthorizationCode c k (trim x))
                 (s(''clientId'' := JStr c, ''clientSecret'' := JStr k))) = Inr t \<longrightarrow>
        tokens (store (onDidReceiveSettings up actions now settings (start s))) = issued t"
    using 7 [of c k "trim x" "s(''clientId'' := JStr c, ''clientSecret'' := JStr k)"]
    by (auto simp: onDidReceiveSettings_store Let_def)
  from 1 2 3 4 5 have "together None (trace (snd (getValidAccessToken up now (start s))))
   \<and> together None (trace (onKeyDown up actions now payload (start s)))
   \<and> together None (trace (exchangeToken up actions now c k code (start s)))
   \<and> together None (trace (onSendToPlugin up actions now msg (start s)))
   \<and> together None (trace (onDidReceiveSettings up actions now settings (start s)))"
    by (simp add: together_core)
  with 6 7 8 9 10 11 12 show ?thesis by blast
qed

theorem tokens_written_together_witness:
  "refresh_due stored 1900
   \<and> fst (token_endpoint upstream_ok (refresh_request stored) stored) = Inr fresh_tokens
   \<and> together None (trace (snd (getValidAccessToken upstream_ok 1900 (start stored))))
   \<and> tokens (store (snd (getValidAccessToken upstream_ok 1900 (start stored))))
        = issued fresh_tokens
   \<and> together None (trace (onKeyDown upstream_ok [key] 1900 empty_obj (start stored)))
   \<and> fst (token_endpoint upstream_ok (RefreshToken ''id'' ''secret'' ''old-refresh'') stored)
        = Inr fresh_tokens
   \<and> tokens (store (onKeyDown upstream_ok [key] 1900 empty_obj (start stored)))
        = issued fresh_tokens
   \<and> filter is_write (trace (onKeyDown upstream_ok [key] 1900 empty_obj (start stored)))
        = [SetGlobalSettings
             (snd (token_endpoint upstream_ok (RefreshToken ''id'' ''secret'' ''old-refresh'')
                     stored))
             (stored(''accessToken'' := JStr (access_token fresh_tokens),
                     ''refreshToken'' := JStr (refresh_token fresh_tokens),
                     ''expiresAt'' := JNum (expires_at fresh_tokens)))]
   \<and> fst (token_endpoint upstream_ok (AuthorizationCode ''id'' ''secret'' ''code'') empty_obj)
        = Inr fresh_tokens
   \<and> tokens (store (exchangeToken upstream_ok [key] 1900 ''id'' ''secret'' ''code''
                       (start empty_obj))) = issued fresh_tokens
   \<and> event_name exchange_message = ''exchangeToken''
   \<and> tokens (store (onSendToPlugin upstream_ok [key] 1900 exchange_message (start empty_obj)))
        = issued fresh_tokens
   \<and> trim '' code '' = ''code''
   \<and> \<not> truthy (empty_obj ''accessToken'')
   \<and> tokens (store (onDidReceiveSettings upstream_ok [key] 1900 received_settings
                       (start empty_obj)))
        = issued fresh_tokens"
proof -
  note stale = tokens_written_together [where s = stored and now = 1900 and up = upstream_ok
      and t = fresh_tokens and actions = "[key]" and payload = empty_obj
      and r = "''old-refresh''" and c = "''id''" and k = "''secret''"]
  note unset = tokens_written_together [where s = empty_obj and now = 1900
      and up = upstream_ok and t = fresh_tokens and c = "''id''" and k = "''secret''"
      and code = "''code''" and actions = "[key]" and msg = exchange_message
      and x = "'' code ''" and settings = received_settings]
  have due: "refresh_due stored 1900"
    by (simp add: refresh_due_def stored_def empty_obj_def)
  have answer: "fst (token_endpoint upstream_ok req st) = Inr fresh_tokens" for req st
    by (simp add: upstream_ok_def)
  have held: "stored ''refreshToken'' = JStr ''old-refresh'' \<and> ''old-refresh'' \<noteq> []
      \<and> stored ''clientId'' = JStr ''id'' \<and> ''id'' \<noteq> []
      \<and> stored ''clientSecret'' = JStr ''secret'' \<and> ''secret'' \<noteq> []"
    by (simp add: stored_def empty_obj_def)
  have named: "event_name exchange_message = ''exchangeToken''"
    by (simp add: exchange_message_def)
  have trimmed: "trim '' code '' = ''code''"
    by code_simp
  then have code: "trim '' code '' \<noteq> []"
    by simp
  have received: "received_settings ''clientId'' = JStr ''id''
      \<and> received_settings ''clientSecret'' = JStr ''secret''
      \<and> received_settings ''authCode'' = JStr '' code ''"
    by (simp add: received_settings_def empty_obj_def)
  have unauth: "\<not> truthy (empty_obj ''accessToken'')"
    by (simp add: empty_obj_def)
  from stale due answer held
  have 1: "together None (trace (snd (getValidAccessToken upstream_ok 1900 (start stored))))
     \<and> tokens (store (snd (getValidAccessToken upstream_ok 1900 (start stored))))
          = issued fresh_tokens
     \<and> together None (trace (onKeyDown upstream_ok [key] 1900 empty_obj (start stored)))
     \<and> tokens (store (onKeyDown upstream_ok [key] 1900 empty_obj (start stored)))
          = issued fresh_tokens
     \<and> filter is_write (trace (onKeyDown upstream_ok [key] 1900 empty_obj (start stored)))
          = [SetGlobalSettings
               (snd (token_endpoint upstream_ok (RefreshToken ''id'' ''secret'' ''old-refresh'')
                       stored))
               (stored(''accessToken'' := JStr (access_token fresh_tokens),
                       ''refreshToken'' := JStr (refresh_token fresh_tokens),
                       ''expiresAt'' := JNum (expires_at fresh_tokens)))]"
    by blast
  from unset answer held named code received unauth
  have 2: "tokens (store (exchangeToken upstream_ok [key] 1900 ''id'' ''secret'' ''code''
                       (start empty_obj))) = issued fresh_tokens
     \<and> tokens (store (onSendToPlugin upstream_ok [key] 1900 exchange_message (start empty_obj)))
          = issued fresh_tokens
     \<and> tokens (store (onDidReceiveSettings upstream_ok [key] 1900 received_settings
                         (start empty_obj)))
          = issued fresh_tokens"
    by blast
  from 1 2 due answer named trimmed unauth show ?thesis
    by blast
qed

text \<open>
  C10. \<open>getValidAccessToken\<close> writes the store exactly on the path where the refresh call
  is made and succeeds. On every path that makes no refresh call (a missing token, a
  token still valid, a missing client id or secret) the store is left as it was, and
  after a failed refresh call it is as the call left it.
\<close>

theorem getValidAccessToken_frame:
  "(filter is_write (trace (snd (getValidAccessToken up now (start s)))) \<noteq> []
      \<longleftrightarrow> refresh_due s now \<and> (\<exists>t. fst (token_endpoint up (refresh_request s) s) = Inr t))
   \<and> (\<not> refresh_due s now \<longrightarrow> store (snd (getValidAccessToken up now (start s))) = s)
   \<and> (refresh_due s now \<and> (\<exists>e. fst (token_endpoint up (refresh_request s) s) = Inl e) \<longrightarrow>
        store (snd (getValidAccessToken up now (start s)))
          = snd (token_endpoint up (refresh_request s) s))"
  by (auto simp: getValidAccessToken_start refresh_due_def split: prod.splits sum.splits)

theorem getValidAccessToken_frame_witness:
  "\<not> refresh_due stored 1000
   \<and> store (snd (getValidAccessToken upstream_ok 1000 (start stored))) = stored
   \<and> refresh_due stored 1900
   \<and> fst (token_endpoint upstream_400 (refresh_request stored) stored) = Inl http_400
   \<and> store (snd (getValidAccessToken upstream_400 1900 (start stored))) = stored
   \<and> filter is_write (trace (snd (getValidAccessToken upstream_400 1900 (start stored)))) = []
   \<and> filter is_write (trace (snd (getValidAccessToken upstream_ok 1900 (start stored)))) \<noteq> []"
  using getValidAccessToken_frame [where s = stored and now = 1000 and up = upstream_ok]
    getValidAccessToken_frame [where s = stored and now = 1900 and up = upstream_400]
    getValidAccessToken_frame [where s = stored and now = 1900 and up = upstream_ok]
  by (simp add: refresh_due_def stored_def empty_obj_def upstream_ok_def upstream_400_def)

section \<open>A refresh that fails\<close>

text \<open>
  C4, as the code has it. When the refresh call made inside \<open>getValidAccessToken\<close> fails,
  with the status 429 or with any other error, the failure does not reach the widget:
  the \<^verbatim>\<open>catch\<close> of \<open>getValidAccessToken\<close> returns null. The year widget makes no resource
  call then and shows the title of the unauthenticated state, \<^verbatim>\<open>Setup OAuth First\<close>, and
  not the rate-limit title.
\<close>

theorem failed_refresh_shown_as_setup:
  assumes "refresh_due s now"
    and "token_endpoint up (refresh_request s) s = (Inl error, st)"
  shows "fst (getValidAccessToken up now (start s)) = None
       \<and> trace (updateYearDisplay up render visible actionId now (start s))
           = [GetGlobalSettings, Post (refresh_request s) (Inl error)]
             @ (if visible then [SetTitle actionId ''Setup\<newline>OAuth\<newline>First''] else [])
       \<and> SetTitle actionId ''Rate\<newline>Limit\<newline>Wait 30m''
           \<notin> set (trace (updateYearDisplay up render visible actionId now (start s)))"
  using assms by (simp add: updateYearDisplay_def getValidAccessToken_start refresh_due_def)

theorem failed_refresh_shown_as_setup_witness:
  "refresh_due stored 1900
   \<and> token_endpoint upstream_429 (refresh_request stored) stored = (Inl http_429, stored)
   \<and> fst (getValidAccessToken upstream_429 1900 (start stored)) = None
   \<and> response_status http_429 = Some 429
   \<and> fst (getValidAccessToken upstream_429 1900 (start stored)) = None
   \<and> trace (updateYearDisplay upstream_429 render_text True ''key'' 1900 (start stored))
       = [GetGlobalSettings, Post (refresh_request stored) (Inl http_429),
          SetTitle ''key'' ''Setup\<newline>OAuth\<newline>First'']"
  using failed_refresh_shown_as_setup [where s = stored and now = 1900 and up = upstream_429
      and error = http_429 and st = stored and visible = True and actionId = "''key''"
      and render = render_text]
  by (simp add: refresh_due_def stored_def empty_obj_def upstream_429_def upstream_ok_def
      http_429_def)

text \<open>
  C4 as stated fails: the token endpoint answers the refresh with the status 429, and the
  key shows \<^verbatim>\<open>Setup OAuth First\<close>; the rate-limit title is never set.
\<close>

theorem refresh_429_not_rate_limited:
  "response_status http_429 = Some 429
   \<and> last (trace (updateYearDisplay upstream_429 render_text True ''key'' 1900 (start stored)))
       = SetTitle ''key'' ''Setup\<newline>OAuth\<newline>First''
   \<and> SetTitle ''key'' ''Rate\<newline>Limit\<newline>Wait 30m''
       \<notin> set (trace (updateYearDisplay upstream_429 render_text True ''key'' 1900 (start stored)))"
  by (simp add: updateYearDisplay_def getValidAccessToken_start refresh_request_def
      stored_def empty_obj_def upstream_429_def upstream_ok_def http_429_def)

text \<open>
  C8, as the code has it. \<open>getValidAccessToken\<close> reads the store once, before the refresh
  call. When the call fails it returns null without reading the store again, whatever the
  store holds by then.
\<close>

theorem failed_refresh_gives_up:
  assumes "refresh_due s now"
    and "token_endpoint up (refresh_request s) s = (Inl error, st)"
  shows "getValidAccessToken up now (start s)
           = (None, \<lparr>store = st,
                     trace = [GetGlobalSettings, Post (refresh_request s) (Inl error)]\<rparr>)"
  using assms by (simp add: getValidAccessToken_start refresh_due_def)

theorem failed_refresh_gives_up_witness:
  "refresh_due stored 1900
   \<and> token_endpoint upstream_400 (refresh_request stored) stored = (Inl http_400, stored)
   \<and> getValidAccessToken upstream_400 1900 (start stored)
        = (None, \<lparr>store = stored,
                  trace = [GetGlobalSettings, Post (refresh_request stored) (Inl http_400)]\<rparr>)"
  using failed_refresh_gives_up [where s = stored and now = 1900 and up = upstream_400
      and error = http_400 and st = stored]
  by (simp add: refresh_due_def stored_def empty_obj_def upstream_400_def upstream_ok_def)

text \<open>
  C8 as stated fails: the refresh is rejected because another widget has used the refresh
  token first, and that widget's new access token is in the store when the call returns.
  The result is null, not the new token, and the trace has no second read.
\<close>

theorem lost_race_not_reread:
  "store (snd (getValidAccessToken upstream_raced 1900 (start stored))) ''accessToken''
     = JStr ''new-access''
   \<and> fst (getValidAccessToken upstream_raced 1900 (start stored)) = None
   \<and> trace (snd (getValidAccessToken upstream_raced 1900 (start stored)))
       = [GetGlobalSettings, Post (RefreshToken ''id'' ''secret'' ''old-refresh'') (Inl http_400)]"
  by (simp add: getValidAccessToken_start refresh_request_def
      stored_def empty_obj_def upstream_raced_def upstream_ok_def)

section \<open>Authorization-code exchange\<close>

text \<open>
  C6, as the code has it. \<open>onDidReceiveSettings\<close> reads the store before the exchange and
  skips it when an access token is stored (valid or not): it makes no call of the token
  endpoint then. The \<^verbatim>\<open>exchangeToken\<close> message of the property inspector
  (\<open>onSendToPlugin\<close>) is exchanged without that check.
\<close>

theorem onDidReceiveSettings_guard:
  assumes "truthy (s ''accessToken'')"
  shows "filter is_token_call
           (trace (onDidReceiveSettings up actions now settings (start s))) = []"
proof -
  have "filter is_token_call
          (core (trace (onDidReceiveSettings up actions now settings (start s)))) = []"
    using assms by (simp add: onDidReceiveSettings_core Let_def)
  then show ?thesis by (simp add: filter_token_call_core)
qed

theorem onDidReceiveSettings_guard_witness:
  "truthy (stored ''accessToken'')
   \<and> filter is_token_call
       (trace (onDidReceiveSettings upstream_ok [key] 1000 received_settings (start stored))) = []"
  using onDidReceiveSettings_guard [where s = stored and up = upstream_ok
      and actions = "[key]" and now = 1000 and settings = received_settings]
  by (simp add: stored_def empty_obj_def)

text \<open>
  C6 as stated fails: with a valid access token stored (it expires at 2000, the time is
  1000), the \<^verbatim>\<open>exchangeToken\<close> message makes a call of the token endpoint.
\<close>

theorem exchange_message_not_guarded:
  "fst (getValidAccessToken upstream_ok 1000 (start stored)) = Some ''old-access''
   \<and> filter is_token_call
       (trace (onSendToPlugin upstream_ok [key] 1000 exchange_message (start stored)))
     = [Post (AuthorizationCode ''id'' ''secret'' ''code'') (Inr fresh_tokens)]"
proof -
  have "filter is_token_call
          (core (trace (onSendToPlugin upstream_ok [key] 1000 exchange_message (start stored))))
        = [Post (AuthorizationCode ''id'' ''secret'' ''code'') (Inr fresh_tokens)]"
    by (simp add: onSendToPlugin_def exchangeToken_core exchange_message_def upstream_ok_def)
  then show ?thesis
    by (simp add: filter_token_call_core getValidAccessToken_start stored_def empty_obj_def)
qed

text \<open>
  C9. If the upstream rejects the exchange, \<open>exchangeAuthorizationCode\<close> fails (it throws
  an \<^verbatim>\<open>Error\<close> that wraps the upstream error), and \<open>exchangeToken\<close> makes no write of
  the store: the store is as the call left it.
\<close>

theorem failed_exchange_leaves_store:
  assumes "token_endpoint up (AuthorizationCode c k code) s = (Inl error, st)"
  shows "fst (exchangeAuthorizationCode up c k code (start s))
           = Inl (Error_new (''Failed to exchange authorization code: '' @ to_string error))
       \<and> filter is_write (trace (exchangeToken up actions now c k code (start s))) = []
       \<and> store (exchangeToken up actions now c k code (start s)) = st"
proof -
  have "filter is_write (core (trace (exchangeToken up actions now c k code (start s)))) = []"
    using assms by (simp add: exchangeToken_core)
  then show ?thesis
    using assms
    by (simp add: filter_write_core exchangeToken_store exchangeAuthorizationCode_def post_def)
qed

theorem failed_exchange_leaves_store_witness:
  "token_endpoint upstream_400 (AuthorizationCode ''id'' ''secret'' ''code'') stored
     = (Inl http_400, stored)
   \<and> filter is_write
       (trace (exchangeToken upstream_400 [key] 1000 ''id'' ''secret'' ''code'' (start stored)))
     = []
   \<and> store (exchangeToken upstream_400 [key] 1000 ''id'' ''secret'' ''code'' (start stored))
     = stored"
  using failed_exchange_leaves_store [where up = upstream_400 and c = "''id''"
      and k = "''secret''" and code = "''code''" and s = stored and error = http_400
      and st = stored and actions = "[key]" and now = 1000]
  by (simp add: upstream_400_def upstream_ok_def)

section \<open>Rate-limit classification\<close>

text \<open>
  C7, as the code has it. In the \<^verbatim>\<open>catch\<close> of a widget's display update, an error is
  taken for a rate limit exactly when \<^verbatim>\<open>error.response.status\<close> or \<^verbatim>\<open>error.status\<close> is
  the number 429, or the text \<^verbatim>\<open>429\<close> occurs in its message or in its string form. So
  an error that carries the status 429 in a structured field is taken for a rate limit,
  and so is the \<^verbatim>\<open>Error\<close> in which the service wraps an upstream error whose string form
  contains \<^verbatim>\<open>429\<close>. The year widget (and with the same block the month and the week
  widget) and the last-activity widget show the rate-limit title exactly then, and
  their error title otherwise.
\<close>

theorem rate_limit_classification:
  "(is429 error \<longleftrightarrow>
      response_status error = Some 429 \<or> status error = Some 429
      \<or> (\<exists>m. message error = Some m \<and> sublist ''429'' m)
      \<or> sublist ''429'' (to_string error))
   \<and> (response_status error = Some 429 \<or> status error = Some 429 \<longrightarrow> is429 error)
   \<and> (sublist ''429'' (to_string error) \<longrightarrow> is429 (Error_new (intro @ to_string error)))
   \<and> trace (updateYearDisplay_catch True actionId error (start s))
       = (if is429 error
          then [SetTitle actionId ''Rate\<newline>Limit\<newline>Wait 30m'',
                SetImage actionId ''imgs/keys/background'']
          else [SetTitle actionId ''Error\<newline>Check\<newline>Token'',
                SetImage actionId ''imgs/keys/background''])
   \<and> trace (updateLastActivityDisplay_catch True actionId error (start s))
       = (if is429 error
          then [SetTitle actionId ''Rate\<newline>Limit\<newline>Wait 30m'']
          else [SetTitle actionId ''Error\<newline>Refresh\<newline>Auth''])"
proof -
  have a: "is429 error \<longleftrightarrow>
      response_status error = Some 429 \<or> status error = Some 429
      \<or> (\<exists>m. message error = Some m \<and> sublist ''429'' m)
      \<or> sublist ''429'' (to_string error)"
    by (rule is429_sublist)
  from a have b: "response_status error = Some 429 \<or> status error = Some 429 \<longrightarrow> is429 error"
    by blast
  have c: "sublist ''429'' (to_string error) \<longrightarrow> is429 (Error_new (intro @ to_string error))"
    by (simp add: is429_wrapped)
  have d: "trace (updateYearDisplay_catch True actionId error (start s))
       = (if is429 error
          then [SetTitle actionId ''Rate\<newline>Limit\<newline>Wait 30m'',
                SetImage actionId ''imgs/keys/background'']
          else [SetTitle actionId ''Error\<newline>Check\<newline>Token'',
                SetImage actionId ''imgs/keys/background''])"
    by (simp add: updateYearDisplay_catch_def)
  have e: "trace (updateLastActivityDisplay_catch True actionId error (start s))
       = (if is429 error
          then [SetTitle actionId ''Rate\<newline>Limit\<newline>Wait 30m'']
          else [SetTitle actionId ''Error\<newline>Refresh\<newline>Auth''])"
    by (simp add: updateLastActivityDisplay_catch_def)
  from a b c d e show ?thesis by (intro conjI)
qed

theorem rate_limit_classification_witness:
  "response_status http_429 = Some 429
   \<and> is429 http_429
   \<and> sublist ''429'' (to_string http_429)
   \<and> is429 (Error_new (''Failed to fetch athlete profile: '' @ to_string http_429))
   \<and> \<not> is429 http_400
   \<and> trace (updateYearDisplay_catch True ''key'' http_429 (start stored))
       = [SetTitle ''key'' ''Rate\<newline>Limit\<newline>Wait 30m'',
          SetImage ''key'' ''imgs/keys/background'']
   \<and> trace (updateLastActivityDisplay_catch True ''key'' http_400 (start stored))
       = [SetTitle ''key'' ''Error\<newline>Refresh\<newline>Auth'']"
proof -
  have txt429: "sublist ''429'' (to_string http_429)"
    by (simp add: includes_str_sublist [symmetric] http_429_def)
  have no: "\<not> is429 http_400"
    by (simp add: is429_def http_400_def)
  show ?thesis
    using txt429 no
      rate_limit_classification [where error = http_429 and actionId = "''key''"
        and s = stored and intro = "''Failed to fetch athlete profile: ''"]
      rate_limit_classification [where error = http_400 and actionId = "''key''"
        and s = stored]
    by (simp add: http_429_def)
qed

text \<open>
  C7 as stated fails: the connection is refused, so there is no response and the error
  carries no HTTP status at all; the port number in its text contains \<^verbatim>\<open>429\<close>, and with
  a valid token stored the year widget shows the rate-limit title.
\<close>

theorem refused_connection_rate_limited:
  "response_status refused_4290 = None \<and> status refused_4290 = None
   \<and> athlete_endpoint upstream_refused ''old-access'' = Inl refused_4290
   \<and> is429 refused_4290
   \<and> trace (updateYearDisplay upstream_refused render_text True ''key'' 1000 (start stored))
       = [GetGlobalSettings, ApiGet AthleteProfile ''old-access'',
          SetTitle ''key'' ''Rate\<newline>Limit\<newline>Wait 30m'',
          SetImage ''key'' ''imgs/keys/background'']"
  by (simp add: updateYearDisplay_def getValidAccessToken_start getAuthenticatedAthlete_def
      updateYearDisplay_catch_def is429_def Error_new_def
      stored_def empty_obj_def upstream_refused_def upstream_ok_def refused_4290_def)

end
